theory Spec2Isabelle
  imports Main "HOL-Library.Sublist"
begin

section \<open>The build script of PyEMMA (setup.py)\<close>

text \<open>
  The script decides, from the command line and from what the environment offers, which
  native extensions are built, from which source form and with which flags. Everything
  the script reads from outside itself (the command line, the file system, the outcome of
  an import statement, of a subprocess, of the translator) is a field of the record
  \<open>env\<close>; everything it does that a reader of the log could see (an import, a warning,
  a print, a subprocess, a delegation) is an \<open>event\<close>; every exception is a value of
  \<open>error\<close>.
\<close>

subsection \<open>Data: descriptors, errors, events\<close>

text \<open>
  \<open>setuptools.Extension\<close>, with the attributes the script sets or reads. The constructor
  gives every omitted list attribute a fresh empty list and \<open>language\<close> the value None.
\<close>

type_synonym macro = "string \<times> string option"

record Extension =
  name :: string
  sources :: "string list"
  include_dirs :: "string list"
  define_macros :: "macro list"
  libraries :: "string list"
  library_dirs :: "string list"
  extra_compile_args :: "string list"
  extra_link_args :: "string list"
  language :: "string option"

definition new_Extension :: "string \<Rightarrow> string list \<Rightarrow> Extension" where
  "new_Extension n srcs =
     \<lparr>name = n, sources = srcs, include_dirs = [], define_macros = [], libraries = [],
      library_dirs = [], extra_compile_args = [], extra_link_args = [], language = None\<rparr>"

text \<open>
  The exceptions that can leave a function of the script. \<open>External\<close> stands for whatever
  a collaborator that is not part of the script (the translator, the base archive
  command) raises on its own account.
\<close>

datatype error =
    ImportError string
  | AssertionError
  | KeyError string
  | TypeError
  | CalledProcessError int "string list"
  | OSError
  | External string

datatype event =
    Imports string
  | Warn string
  | Print string
  | Cythonize
  | Subprocess "string list"
  | BaseSdistRun
  | Setup

text \<open>A computation: the events so far, and an exception or a value.\<close>

type_synonym 'a res = "event list \<times> (error + 'a)"

definition ret :: "'a \<Rightarrow> 'a res" where
  "ret x = ([], Inr x)"

definition emit :: "event \<Rightarrow> unit res" where
  "emit ev = ([ev], Inr ())"

definition res_bind :: "'a res \<Rightarrow> ('a \<Rightarrow> 'b res) \<Rightarrow> 'b res" where
  "res_bind m f =
     (case snd m of
        Inl e \<Rightarrow> (fst m, Inl e)
      | Inr x \<Rightarrow> (fst m @ fst (f x), snd (f x)))"

text \<open>\<open>try: m except ImportError: h\<close>; any other exception passes through.\<close>

definition except_ImportError :: "'a res \<Rightarrow> 'a res \<Rightarrow> 'a res" where
  "except_ImportError m h =
     (case snd m of
        Inl (ImportError _) \<Rightarrow> (fst m @ fst h, snd h)
      | _ \<Rightarrow> m)"

text \<open>
  An import statement either binds the name or raises ImportError. \<open>warnings.warn\<close> and
  \<open>print\<close> are the emission of an event (the default warning filter), and \<open>assert\<close> is
  executed (the interpreter does not run with -O).
\<close>

datatype import_outcome = Imported | ImportFails

definition py_import :: "string \<Rightarrow> import_outcome \<Rightarrow> unit res" where
  "py_import m outcome =
     (case outcome of
        Imported \<Rightarrow> ([Imports m], Inr ())
      | ImportFails \<Rightarrow> ([Imports m], Inl (ImportError m)))"

definition py_assert :: "bool \<Rightarrow> unit res" where
  "py_assert b = (if b then ret () else ([], Inl AssertionError))"

datatype proc_outcome = Exited int | SpawnFailed

record env =
  argv :: "string list"
  sys_platform :: string
  file_dir :: string
  os_path_join :: "string list \<Rightarrow> string"
  os_path_exists :: "string \<Rightarrow> bool"
  import_cython :: import_outcome
  import_mdtraj :: import_outcome
  import_numpy :: import_outcome
  detect_openmp :: "bool \<times> bool"
  mdtraj_capi :: "string \<times> string"
  numpy_get_include :: string
  cythonize :: "Extension list \<Rightarrow> error + Extension list"
  run_process :: "string list \<Rightarrow> proc_outcome"
  base_sdist_run :: "error + unit"
  versioneer_version :: string
  readme :: string
  found_packages :: "string list"

text \<open>
  Modelled from the spec: \<open>detect_openmp\<close> of setup_util is not part of the source at
  hand. The spec (4.1) has it report whether parallel-compute support was found and
  whether the runtime library must be linked explicitly, and never raise; the model takes
  the pair it returns from the environment.
\<close>

subsection \<open>Strings\<close>

text \<open>
  \<open>str.replace(old, new)\<close>: scans from the left and replaces every non-overlapping
  occurrence of \<open>old\<close>. With an empty \<open>old\<close>, Python puts \<open>new\<close> before every character
  and at the end.
\<close>

function str_replace :: "string \<Rightarrow> string \<Rightarrow> string \<Rightarrow> string" where
  "str_replace old new [] = (if old = [] then new else [])"
| "str_replace old new (c # cs) =
     (if old = [] then new @ c # str_replace old new cs
      else if prefix old (c # cs) then new @ str_replace old new (drop (length old) (c # cs))
      else c # str_replace old new cs)"
  by pat_completeness auto
termination
  by (relation "measure (\<lambda>(old, new, s). length s)") auto

text \<open>\<open>s.split(sep)\<close> for a separator of one character; \<open>cur\<close> is the piece being read.\<close>

fun split_from :: "char \<Rightarrow> string \<Rightarrow> string \<Rightarrow> string list" where
  "split_from sep cur [] = [cur]"
| "split_from sep cur (c # cs) =
     (if c = sep then cur # split_from sep [] cs else split_from sep (cur @ [c]) cs)"

definition str_split :: "string \<Rightarrow> char \<Rightarrow> string list" where
  "str_split s sep = split_from sep [] s"

subsection \<open>extensions(): assembling the descriptors\<close>

text \<open>Lines 81 to 86: the probe for the translator.\<close>

definition probe_cython :: "env \<Rightarrow> bool res" where
  "probe_cython env =
     except_ImportError
       (res_bind (py_import ''Cython.Build'' (import_cython env)) (\<lambda>_. ret True))
       (res_bind (emit (Warn ''Cython not found. Using pre cythonized files.''))
          (\<lambda>_. ret False))"

text \<open>Lines 99 to 142: the four descriptors.\<close>

definition assemble :: "env \<Rightarrow> string \<Rightarrow> string \<Rightarrow> Extension list" where
  "assemble env np_inc pybind_inc =
     (let lib_prefix = (if prefix ''win'' (sys_platform env) then ''lib'' else '''');
          clustering_module =
            (new_Extension ''pyemma.coordinates.clustering._ext''
               [''pyemma/coordinates/clustering/src/clustering_module.cpp''])
            \<lparr>include_dirs :=
               [fst (mdtraj_capi env), np_inc, pybind_inc,
                ''pyemma/coordinates/clustering/include''],
             libraries := [lib_prefix @ ''theobald''],
             library_dirs := [snd (mdtraj_capi env)],
             extra_compile_args := [''-std=c++11'', ''-O3'', ''-fvisibility=hidden''],
             language := Some ''c++''\<rparr>;
          covar_module =
            (new_Extension ''pyemma._ext.variational.estimators.covar_c._covartools''
               [''pyemma/_ext/variational/estimators/covar_c/covartools.cpp''])
            \<lparr>include_dirs :=
               [''pyemma/_ext/variational/estimators/covar_c/'', np_inc, pybind_inc],
             extra_compile_args := [''-std=c++11'', ''-O3'', ''-fvisibility=hidden'']\<rparr>;
          eig_qr_module =
            (new_Extension ''pyemma._ext.variational.solvers.eig_qr.eig_qr''
               [''pyemma/_ext/variational/solvers/eig_qr/eig_qr.pyx''])
            \<lparr>include_dirs := [''pyemma/_ext/variational/solvers/eig_qr/'', np_inc],
             extra_compile_args := [''-std=c99'', ''-O3'']\<rparr>;
          orderedset =
            (new_Extension ''pyemma._ext.orderedset._orderedset''
               [''pyemma/_ext/orderedset/_orderedset.pyx''])
            \<lparr>include_dirs := [np_inc],
             extra_compile_args := [''-O3'']\<rparr>
      in [] @ [clustering_module, covar_module, eig_qr_module, orderedset])"

text \<open>
  Lines 144 to 150, the branch without the translator. The inner loop appends to
  \<open>new_src\<close>; the outer loop stores the new list in each descriptor.
\<close>

fun replace_sources :: "string list \<Rightarrow> string list \<Rightarrow> string list" where
  "replace_sources new_src [] = new_src"
| "replace_sources new_src (s # ss) =
     replace_sources (new_src @ [str_replace ''.pyx'' ''.c'' s]) ss"

fun use_pregenerated :: "Extension list \<Rightarrow> Extension list" where
  "use_pregenerated [] = []"
| "use_pregenerated (e # es) =
     e\<lparr>sources := replace_sources [] (sources e)\<rparr> # use_pregenerated es"

text \<open>Line 152: the translator is a collaborator; its outcome comes from the environment.\<close>

definition call_cythonize :: "env \<Rightarrow> Extension list \<Rightarrow> Extension list res" where
  "call_cythonize env exts = ([Cythonize], cythonize env exts)"

text \<open>Lines 154 to 162: the parallel-compute flags.\<close>

fun omp_loop :: "string list \<Rightarrow> string list \<Rightarrow> macro list \<Rightarrow> Extension list \<Rightarrow> Extension list" where
  "omp_loop omp_compiler_args omp_libraries omp_defines [] = []"
| "omp_loop omp_compiler_args omp_libraries omp_defines (e # es) =
     e\<lparr>extra_compile_args := extra_compile_args e @ omp_compiler_args,
       extra_link_args := extra_link_args e @ omp_libraries,
       define_macros := define_macros e @ omp_defines\<rparr>
     # omp_loop omp_compiler_args omp_libraries omp_defines es"

definition inject_openmp :: "bool \<Rightarrow> bool \<Rightarrow> Extension list \<Rightarrow> Extension list res" where
  "inject_openmp openmp_enabled needs_gomp exts =
     (if openmp_enabled then
        res_bind (emit (Warn ''enabled openmp'')) (\<lambda>_.
          let omp_compiler_args = [''-fopenmp''];
              omp_libraries = (if needs_gomp then [''-lgomp''] else []);
              omp_defines = [(''USE_OPENMP'', None)]
          in ret (omp_loop omp_compiler_args omp_libraries omp_defines exts))
      else ret exts)"

text \<open>Lines 99 to 164: what follows the existence check, given the probe's answer.\<close>

definition build_exts :: "env \<Rightarrow> bool \<Rightarrow> string \<Rightarrow> string \<Rightarrow> Extension list res" where
  "build_exts env USE_CYTHON np_inc pybind_inc =
     res_bind
       (if \<not> USE_CYTHON then ret (use_pregenerated (assemble env np_inc pybind_inc))
        else call_cythonize env (assemble env np_inc pybind_inc))
       (\<lambda>exts. inject_openmp (fst (detect_openmp env)) (snd (detect_openmp env)) exts)"

text \<open>Lines 88 to 97, then the rest: what follows the probe, given its answer.\<close>

definition extensions_body :: "env \<Rightarrow> bool \<Rightarrow> Extension list res" where
  "extensions_body env USE_CYTHON =
     res_bind (py_import ''mdtraj'' (import_mdtraj env)) (\<lambda>_.
     res_bind (py_import ''numpy'' (import_numpy env)) (\<lambda>_.
     let np_inc = numpy_get_include env;
         pybind_inc = os_path_join env [file_dir env, ''pybind11'', ''include'']
     in res_bind (py_assert (os_path_exists env pybind_inc)) (\<lambda>_.
        build_exts env USE_CYTHON np_inc pybind_inc)))"

definition extensions :: "env \<Rightarrow> Extension list res" where
  "extensions env = res_bind (probe_cython env) (extensions_body env)"

subsection \<open>The archive-build command\<close>

text \<open>
  Lines 174 to 186: \<open>sdist.run\<close>. The base command \<open>sdist_class.run\<close> is a collaborator:
  calling it is the event \<open>BaseSdistRun\<close>, and what it raises or returns comes from the
  environment.
\<close>

definition sdist_run :: "env \<Rightarrow> unit res" where
  "sdist_run env =
     (if \<not> os_path_exists env ''.git'' then
        res_bind (emit (Print ''Not on git, can not create source distribution''))
          (\<lambda>_. ret ())
      else
        res_bind
          (except_ImportError
             (res_bind (py_import ''Cython.Build'' (import_cython env)) (\<lambda>_.
              res_bind (emit (Print ''cythonizing sources'')) (\<lambda>_.
              res_bind (extensions env) (\<lambda>exts.
              res_bind (call_cythonize env exts) (\<lambda>_. ret ())))))
             (emit (Warn ''sdist cythonize failed'')))
          (\<lambda>_. ([BaseSdistRun], base_sdist_run env)))"

subsection \<open>The top level of the script\<close>

text \<open>
  Modelled from the spec: \<open>lazy_cythonize\<close> of setup_util is not part of the source at
  hand. The spec (4.4) has it wrap a zero-argument builder so that the list of
  descriptors is computed only when the framework asks for it: the model is a value that
  holds the callback, and \<open>force\<close> runs it.
\<close>

datatype lazy_cythonize = Lazy_cythonize (callback: "env \<Rightarrow> Extension list res")

definition force :: "lazy_cythonize \<Rightarrow> env \<Rightarrow> Extension list res" where
  "force lz env = callback lz env"

datatype md_value =
    Str string
  | Strs "string list"
  | Flag bool
  | PackageData "(string \<times> string list) list"
  | Cmdclass
  | Lazy lazy_cythonize

type_synonym metadata = "string \<rightharpoonup> md_value"

text \<open>
  Lines 210 to 246: the dictionary. The version string, the text of README.rst and the
  packages found come from the environment; \<open>Cmdclass\<close> stands for the dictionary of
  command classes that \<open>get_cmdclass\<close> returns.
\<close>

definition metadata_dict :: "env \<Rightarrow> metadata" where
  "metadata_dict env =
     [''name'' \<mapsto> Str ''pyEMMA'',
      ''maintainer'' \<mapsto> Str ''Martin K. Scherer'',
      ''maintainer_email'' \<mapsto> Str ''m.scherer@fu-berlin.de'',
      ''author'' \<mapsto> Str ''The Emma team'',
      ''author_email'' \<mapsto> Str ''info@emma-project.org'',
      ''url'' \<mapsto> Str ''http://github.com/markovmodel/PyEMMA'',
      ''license'' \<mapsto> Str ''LGPLv3+'',
      ''description'' \<mapsto> Str (''EMMA: Emma'' @ [CHR 0x27] @ ''s Markov Model Algorithms''),
      ''long_description'' \<mapsto> Str (readme env),
      ''version'' \<mapsto> Str (versioneer_version env),
      ''platforms'' \<mapsto> Strs [''Windows'', ''Linux'', ''Solaris'', ''Mac OS-X'', ''Unix''],
      ''classifiers'' \<mapsto> Strs
        [''Development Status :: 5 - Production/Stable'',
         ''Environment :: Console'',
         ''Environment :: MacOS X'',
         ''Intended Audience :: Science/Research'',
         ''License :: OSI Approved :: GNU Lesser General Public License v3 or later (LGPLv3+)'',
         ''Natural Language :: English'',
         ''Operating System :: MacOS :: MacOS X'',
         ''Operating System :: POSIX'',
         ''Operating System :: Microsoft :: Windows'',
         ''Programming Language :: Python :: 2.7'',
         ''Programming Language :: Python :: 3'',
         ''Topic :: Scientific/Engineering :: Bio-Informatics'',
         ''Topic :: Scientific/Engineering :: Chemistry'',
         ''Topic :: Scientific/Engineering :: Mathematics'',
         ''Topic :: Scientific/Engineering :: Physics''],
      ''keywords'' \<mapsto> Str ''Markov State Model Algorithms'',
      ''packages'' \<mapsto> Strs (found_packages env),
      ''package_data'' \<mapsto> PackageData [(''pyemma'', [''pyemma.cfg''])],
      ''cmdclass'' \<mapsto> Cmdclass,
      ''tests_require'' \<mapsto> Strs [''pytest''],
      ''install_requires'' \<mapsto> Strs
        [''bhmm>=0.6,<0.7'', ''decorator>=4.0.0'', ''matplotlib'', ''mdtraj>=1.8.0'',
         ''msmtools>=1.2'', ''pathos'', ''progress-reporter'', ''psutil>=3.1.1'', ''pyyaml'',
         ''scipy>=0.11'', ''thermotools>=0.2.6'', ''numpy>=1.7.0''],
      ''zip_safe'' \<mapsto> Flag False]"

text \<open>Lines 252 to 255: the test for an invocation that installs nothing.\<close>

definition not_installing :: "string list \<Rightarrow> bool" where
  "not_installing sys_argv =
     (length sys_argv = 1
      \<or> (length sys_argv \<ge> 2
         \<and> (''--help'' \<in> set (drop 1 sys_argv)
            \<or> sys_argv ! 1 \<in> set [''--help-commands'', ''--version'', ''clean''])))"

text \<open>\<open>metadata[k] += xs\<close> on an entry that holds a list of strings.\<close>

definition extend_entry :: "metadata \<Rightarrow> string \<Rightarrow> string list \<Rightarrow> metadata res" where
  "extend_entry md k xs =
     (case md k of
        None \<Rightarrow> ([], Inl (KeyError k))
      | Some (Strs ys) \<Rightarrow> ret (md(k \<mapsto> Strs (ys @ xs)))
      | Some _ \<Rightarrow> ([], Inl TypeError))"

text \<open>
  \<open>subprocess.check_call\<close>: runs the command, raises CalledProcessError when the exit
  status is not zero, and OSError when the program cannot be started.
\<close>

definition check_call :: "env \<Rightarrow> string list \<Rightarrow> unit res" where
  "check_call env args =
     (case run_process env args of
        Exited rc \<Rightarrow>
          (if rc = 0 then ([Subprocess args], Inr ())
           else ([Subprocess args], Inl (CalledProcessError rc args)))
      | SpawnFailed \<Rightarrow> ([Subprocess args], Inl OSError))"

text \<open>
  Lines 279 to 282. \<open>cmd.format(mod=m)\<close> puts \<open>m\<close> in the place of the one field
  \<open>{mod}\<close> of the template.
\<close>

definition cmd :: string where
  "cmd = ''git submodule update --init {mod}''"

fun init_submodules :: "env \<Rightarrow> string list \<Rightarrow> unit res" where
  "init_submodules env [] = ret ()"
| "init_submodules env (m # ms) =
     res_bind (check_call env (str_split (str_replace ''{mod}'' m cmd) CHR '' ''))
       (\<lambda>_. init_submodules env ms)"

text \<open>
  Lines 248 to 287. The call \<open>setup(**metadata)\<close> is the event \<open>Setup\<close>; the value of
  the computation is the dictionary handed to it.
\<close>

definition script :: "env \<Rightarrow> metadata res" where
  "script env =
     (let metadata = (metadata_dict env)(''requires'' \<mapsto> Strs [''numpy'', ''scipy''])
      in res_bind
           (if not_installing (argv env) then ret metadata
            else
              (let metadata1 = metadata(''setup_requires'' \<mapsto>
                                 Strs [''numpy>=1.7.0'', ''scipy'', ''mdtraj>=1.7.0'']);
                   metadata2 = metadata1(''package_data'' \<mapsto>
                                 PackageData
                                   [(''pyemma'', [''pyemma.cfg'', ''logging.yml'']),
                                    (''pyemma.coordinates.tests'', [''data/*'']),
                                    (''pyemma.msm.tests'', [''data/*'']),
                                    (''pyemma.datasets'', [''*.npz'']),
                                    (''pyemma.util.tests'', [''data/*''])])
               in res_bind
                    (if os_path_exists env ''.git'' then
                       res_bind (emit (Warn ''using git, require cython'')) (\<lambda>_.
                       res_bind (extend_entry metadata2 ''setup_requires'' [''cython>=0.22''])
                         (\<lambda>metadata3.
                       res_bind (init_submodules env [''pybind11'']) (\<lambda>_. ret metadata3)))
                     else ret metadata2)
                    (\<lambda>metadata4.
                       ret (metadata4(''ext_modules'' \<mapsto> Lazy (Lazy_cythonize extensions))))))
           (\<lambda>metadata5. res_bind (emit Setup) (\<lambda>_. ret metadata5)))"

subsection \<open>A concrete environment\<close>

text \<open>
  An installation from a source archive on Linux: no checkout, no translator, the other
  providers present, parallel-compute support found with the runtime library to be
  linked explicitly. The theorems below are instantiated at this environment and at
  variations of it.
\<close>

definition example_env :: env where
  "example_env =
     \<lparr>argv = [''setup.py'', ''build'', ''--version''],
      sys_platform = ''linux'',
      file_dir = [],
      os_path_join = (\<lambda>ps. ''pybind11/include''),
      os_path_exists = (\<lambda>p. p = ''pybind11/include''),
      import_cython = ImportFails,
      import_mdtraj = Imported,
      import_numpy = Imported,
      detect_openmp = (True, True),
      mdtraj_capi = (''mdtraj/include'', ''mdtraj/lib''),
      numpy_get_include = ''numpy/include'',
      cythonize = (\<lambda>exts. Inr exts),
      run_process = (\<lambda>args. Exited 0),
      base_sdist_run = Inr (),
      versioneer_version = ''2.4'',
      readme = ''EMMA'',
      found_packages = [''pyemma'']\<rparr>"

section \<open>Properties\<close>

subsection \<open>Feature injection without parallel-compute support\<close>

text \<open>
  C4. When parallel-compute support is not detected, the injection step is the identity:
  it returns the descriptor list it was given, with the extra compiler arguments, the
  extra linker arguments and the preprocessor defines of every descriptor as they were,
  it emits nothing and it raises nothing.
\<close>

theorem inject_openmp_disabled_identity:
  "inject_openmp False needs_gomp exts = ([], Inr exts)"
  by (simp add: inject_openmp_def ret_def)

subsection \<open>Source-form resolution without the translator\<close>

lemma replace_sources_map:
  "replace_sources new_src ss = new_src @ map (str_replace ''.pyx'' ''.c'') ss"
  by (induction ss arbitrary: new_src) simp_all

lemma use_pregenerated_length: "length (use_pregenerated exts) = length exts"
  by (induction exts) simp_all

lemma use_pregenerated_nth:
  "i < length exts \<Longrightarrow>
   use_pregenerated exts ! i =
     (exts ! i)\<lparr>sources := map (str_replace ''.pyx'' ''.c'') (sources (exts ! i))\<rparr>"
proof (induction exts arbitrary: i)
  case Nil
  then show ?case by simp
next
  case (Cons e es)
  then show ?case by (cases i) (simp_all add: replace_sources_map)
qed

lemma str_replace_absent:
  "old \<noteq> [] \<Longrightarrow> \<not> sublist old s \<Longrightarrow> str_replace old new s = s"
proof (induction s)
  case Nil
  then show ?case by simp
next
  case (Cons c cs)
  then show ?case by (simp add: sublist_Cons_right)
qed

lemma str_replace_skip:
  "old \<noteq> [] \<Longrightarrow> \<not> prefix old (c # cs) \<Longrightarrow>
   str_replace old new (c # cs) = c # str_replace old new cs"
  by simp

lemma pyx_no_border:
  assumes "''.pyx'' = b @ us" and "prefix us ''.pyx''" and "b \<noteq> []"
  shows "us = []"
proof (cases us)
  case Nil
  then show ?thesis by simp
next
  case (Cons u us')
  with assms(2) have u: "u = CHR ''.''" by simp
  from assms(1,3) obtain b' where b: "b = CHR ''.'' # b'" and r: "''pyx'' = b' @ us"
    by (cases b) auto
  from r Cons u have "CHR ''.'' \<in> set ''pyx''"
    by (metis in_set_conv_decomp)
  then show ?thesis by simp
qed

lemma pyx_not_prefix_short:
  assumes "\<not> sublist ''.pyx'' b" and "b \<noteq> []"
  shows "\<not> prefix ''.pyx'' (b @ ''.pyx'')"
proof
  assume "prefix ''.pyx'' (b @ ''.pyx'')"
  then consider "prefix ''.pyx'' b" | us where "''.pyx'' = b @ us" "prefix us ''.pyx''"
    by (auto simp: prefix_append)
  then show False
  proof cases
    case 1
    then have "sublist ''.pyx'' b" by (rule prefix_imp_sublist)
    with assms(1) show False by contradiction
  next
    case 2
    have "us = []" using pyx_no_border [OF 2(1) 2(2) assms(2)] .
    with 2(1) have "b = ''.pyx''" by simp
    with assms(1) show False by simp
  qed
qed

lemma str_replace_pyx_suffix:
  "\<not> sublist ''.pyx'' b \<Longrightarrow> str_replace ''.pyx'' ''.c'' (b @ ''.pyx'') = b @ ''.c''"
proof (induction b)
  case Nil
  then show ?case by simp
next
  case (Cons c cs)
  have np: "\<not> prefix ''.pyx'' (c # (cs @ ''.pyx''))"
    using pyx_not_prefix_short [OF Cons.prems] by simp
  have ns: "\<not> sublist ''.pyx'' cs"
    using Cons.prems by (simp add: sublist_Cons_right)
  have "str_replace ''.pyx'' ''.c'' ((c # cs) @ ''.pyx'')
        = str_replace ''.pyx'' ''.c'' (c # (cs @ ''.pyx''))"
    by simp
  also have "\<dots> = c # str_replace ''.pyx'' ''.c'' (cs @ ''.pyx'')"
    using np by (intro str_replace_skip) simp_all
  also have "\<dots> = c # (cs @ ''.c'')"
    using Cons.IH [OF ns] by (simp del: str_replace.simps)
  finally show ?case by simp
qed


text \<open>
  On any list of descriptors the loop applies \<open>str.replace\<close> to each source path and
  changes nothing else: a path in which \<open>.pyx\<close> does not occur is untouched, and a path
  whose only occurrence of \<open>.pyx\<close> is its suffix gets the suffix \<open>.c\<close>.
\<close>

lemma use_pregenerated_on_any_list:
  assumes "i < length exts" and "j < length (sources (exts ! i))"
  shows "sources (use_pregenerated exts ! i) ! j
           = str_replace ''.pyx'' ''.c'' (sources (exts ! i) ! j)
       \<and> (\<not> sublist ''.pyx'' (sources (exts ! i) ! j) \<longrightarrow>
            sources (use_pregenerated exts ! i) ! j = sources (exts ! i) ! j)
       \<and> (\<forall>b. sources (exts ! i) ! j = b @ ''.pyx'' \<and> \<not> sublist ''.pyx'' b \<longrightarrow>
            sources (use_pregenerated exts ! i) ! j = b @ ''.c'')"
proof -
  have r: "sources (use_pregenerated exts ! i) ! j
           = str_replace ''.pyx'' ''.c'' (sources (exts ! i) ! j)"
    using assms by (simp add: use_pregenerated_nth)
  have a: "\<not> sublist ''.pyx'' (sources (exts ! i) ! j) \<longrightarrow>
           sources (use_pregenerated exts ! i) ! j = sources (exts ! i) ! j"
    using r by (simp add: str_replace_absent del: str_replace.simps)
  have b: "\<forall>b. sources (exts ! i) ! j = b @ ''.pyx'' \<and> \<not> sublist ''.pyx'' b \<longrightarrow>
           sources (use_pregenerated exts ! i) ! j = b @ ''.c''"
    using r str_replace_pyx_suffix by (simp del: str_replace.simps)
  from r a b show ?thesis by blast
qed

text \<open>
  \<open>str.replace\<close> is not a test of the suffix: on a path with \<open>.pyx\<close> before its end,
  which no descriptor of the script has, it rewrites that occurrence as well.
\<close>

lemma str_replace_pyx_mid_path:
  "str_replace ''.pyx'' ''.c'' ''pkg/mod.pyx.in'' = ''pkg/mod.c.in''"
  by simp

lemma assemble_length: "length (assemble env np_inc pybind_inc) = 4"
  by (simp add: assemble_def Let_def)





subsection \<open>Feature injection with parallel-compute support\<close>

lemma omp_loop_length:
  "length (omp_loop ca la ds exts) = length exts"
  by (induction exts) simp_all

lemma omp_loop_nth:
  "i < length exts \<Longrightarrow>
   omp_loop ca la ds exts ! i =
     (exts ! i)\<lparr>extra_compile_args := extra_compile_args (exts ! i) @ ca,
                extra_link_args := extra_link_args (exts ! i) @ la,
                define_macros := define_macros (exts ! i) @ ds\<rparr>"
proof (induction exts arbitrary: i)
  case Nil
  then show ?case by simp
next
  case (Cons e es)
  then show ?case by (cases i) simp_all
qed

lemma inject_openmp_enabled:
  "inject_openmp True needs_gomp exts =
     ([Warn ''enabled openmp''],
      Inr (omp_loop [''-fopenmp''] (if needs_gomp then [''-lgomp''] else [])
             [(''USE_OPENMP'', None)] exts))"
  by (simp add: inject_openmp_def res_bind_def emit_def ret_def)

text \<open>
  C2. When parallel-compute support is detected, the injection step returns a list of
  the same length in which every descriptor has \<open>-fopenmp\<close> appended once to its extra
  compiler arguments, \<open>-lgomp\<close> appended to its extra linker arguments exactly when the
  runtime library must be linked explicitly, and the one define \<open>('USE_OPENMP', None)\<close>
  appended to its define macros; nothing else of the descriptor changes, and no
  descriptor is left out.
\<close>

theorem inject_openmp_enabled_every_descriptor:
  assumes "i < length exts"
  shows "\<exists>r. inject_openmp True needs_gomp exts = ([Warn ''enabled openmp''], Inr r)
           \<and> length r = length exts
           \<and> extra_compile_args (r ! i) = extra_compile_args (exts ! i) @ [''-fopenmp'']
           \<and> count_list (extra_compile_args (r ! i)) ''-fopenmp''
               = Suc (count_list (extra_compile_args (exts ! i)) ''-fopenmp'')
           \<and> extra_link_args (r ! i)
               = extra_link_args (exts ! i) @ (if needs_gomp then [''-lgomp''] else [])
           \<and> (needs_gomp \<longleftrightarrow>
                extra_link_args (r ! i) = extra_link_args (exts ! i) @ [''-lgomp''])
           \<and> define_macros (r ! i) = define_macros (exts ! i) @ [(''USE_OPENMP'', None)]
           \<and> name (r ! i) = name (exts ! i)
           \<and> sources (r ! i) = sources (exts ! i)
           \<and> include_dirs (r ! i) = include_dirs (exts ! i)
           \<and> libraries (r ! i) = libraries (exts ! i)
           \<and> library_dirs (r ! i) = library_dirs (exts ! i)
           \<and> language (r ! i) = language (exts ! i)"
  using assms
  by (simp add: inject_openmp_enabled omp_loop_length omp_loop_nth)

theorem inject_openmp_enabled_every_descriptor_witness:
  "(1::nat) < length [new_Extension ''a'' [''a.c''], new_Extension ''b'' [''b.c'']]
   \<and> (\<exists>r. inject_openmp True False [new_Extension ''a'' [''a.c''], new_Extension ''b'' [''b.c'']]
              = ([Warn ''enabled openmp''], Inr r)
          \<and> extra_compile_args (r ! 1) = [''-fopenmp'']
          \<and> extra_link_args (r ! 1) = []
          \<and> define_macros (r ! 1) = [(''USE_OPENMP'', None)])"
  using inject_openmp_enabled_every_descriptor
          [of 1 "[new_Extension ''a'' [''a.c''], new_Extension ''b'' [''b.c'']]" False]
  by (auto simp: new_Extension_def)

text \<open>
  The loop has no guard of its own: run a second time over the descriptors it returned,
  it appends the flag a second time. \<open>extensions\<close> builds its descriptors afresh on
  every call and runs the loop once over them.
\<close>

lemma omp_loop_second_pass:
  "i < length exts \<Longrightarrow>
   extra_compile_args (omp_loop ca la ds (omp_loop ca la ds exts) ! i)
     = extra_compile_args (exts ! i) @ ca @ ca"
  by (simp add: omp_loop_nth omp_loop_length)

subsection \<open>The translator probe\<close>

lemma res_bind_Inr: "res_bind (t, Inr x) f = (t @ fst (f x), snd (f x))"
  by (simp add: res_bind_def)

lemma res_bind_Inl: "res_bind (t, Inl e) f = (t, Inl e)"
  by (simp add: res_bind_def)

lemma probe_cython_fails:
  "import_cython env = ImportFails \<Longrightarrow>
   probe_cython env =
     ([Imports ''Cython.Build'', Warn ''Cython not found. Using pre cythonized files.''],
      Inr False)"
  by (simp add: probe_cython_def py_import_def except_ImportError_def res_bind_def
      emit_def ret_def)

lemma probe_cython_succeeds:
  "import_cython env = Imported \<Longrightarrow>
   probe_cython env = ([Imports ''Cython.Build''], Inr True)"
  by (simp add: probe_cython_def py_import_def except_ImportError_def res_bind_def ret_def)

lemma probe_cython_cases:
  "probe_cython env = ([Imports ''Cython.Build''], Inr True)
   \<or> probe_cython env =
        ([Imports ''Cython.Build'', Warn ''Cython not found. Using pre cythonized files.''],
         Inr False)"
  by (cases "import_cython env") (simp_all add: probe_cython_fails probe_cython_succeeds)

lemma extensions_body_checked:
  assumes "import_mdtraj env = Imported" and "import_numpy env = Imported"
    and "os_path_exists env (os_path_join env [file_dir env, ''pybind11'', ''include''])"
  shows "extensions_body env u =
           ([Imports ''mdtraj'', Imports ''numpy'']
              @ fst (build_exts env u (numpy_get_include env)
                       (os_path_join env [file_dir env, ''pybind11'', ''include''])),
            snd (build_exts env u (numpy_get_include env)
                       (os_path_join env [file_dir env, ''pybind11'', ''include''])))"
  using assms
  by (simp add: extensions_body_def py_import_def py_assert_def res_bind_def ret_def Let_def)

lemma extensions_body_unchecked:
  assumes "\<not> os_path_exists env (os_path_join env [file_dir env, ''pybind11'', ''include''])"
  shows "\<exists>e. snd (extensions_body env u) = Inl e"
  using assms
  by (cases "import_mdtraj env"; cases "import_numpy env")
     (simp_all add: extensions_body_def py_import_def py_assert_def res_bind_def ret_def Let_def)

lemma extensions_body_assertion:
  assumes "import_mdtraj env = Imported" and "import_numpy env = Imported"
    and "\<not> os_path_exists env (os_path_join env [file_dir env, ''pybind11'', ''include''])"
  shows "extensions_body env u = ([Imports ''mdtraj'', Imports ''numpy''], Inl AssertionError)"
  using assms
  by (simp add: extensions_body_def py_import_def py_assert_def res_bind_def ret_def Let_def)

lemma extensions_unfold:
  "extensions env =
     (if import_cython env = Imported
      then ([Imports ''Cython.Build''] @ fst (extensions_body env True),
            snd (extensions_body env True))
      else ([Imports ''Cython.Build'', Warn ''Cython not found. Using pre cythonized files.'']
              @ fst (extensions_body env False),
            snd (extensions_body env False)))"
  by (cases "import_cython env")
     (simp_all add: extensions_def probe_cython_fails probe_cython_succeeds res_bind_Inr)

lemma build_exts_fallback:
  "build_exts env False np_inc pybind_inc =
     inject_openmp (fst (detect_openmp env)) (snd (detect_openmp env))
       (use_pregenerated (assemble env np_inc pybind_inc))"
  by (simp add: build_exts_def ret_def res_bind_def)

text \<open>
  C7. The probe for the translator never raises. When the import of
  \<open>Cython.Build\<close> fails, the probe answers False and emits the warning, and
  \<open>extensions\<close> goes on with the rest of its body in the mode without the translator;
  when the import succeeds, the probe answers True and emits no warning.
\<close>

theorem probe_cython_never_raises:
  "(\<exists>b. snd (probe_cython env) = Inr b)
   \<and> (import_cython env = ImportFails \<longrightarrow>
        probe_cython env =
          ([Imports ''Cython.Build'',
            Warn ''Cython not found. Using pre cythonized files.''], Inr False)
        \<and> extensions env =
            (fst (probe_cython env) @ fst (extensions_body env False),
             snd (extensions_body env False)))
   \<and> (import_cython env = Imported \<longrightarrow>
        probe_cython env = ([Imports ''Cython.Build''], Inr True))"
proof -
  have "\<exists>b. snd (probe_cython env) = Inr b"
    using probe_cython_cases [of env] by auto
  moreover have "import_cython env = ImportFails \<longrightarrow>
        probe_cython env =
          ([Imports ''Cython.Build'',
            Warn ''Cython not found. Using pre cythonized files.''], Inr False)
        \<and> extensions env =
            (fst (probe_cython env) @ fst (extensions_body env False),
             snd (extensions_body env False))"
    by (simp add: probe_cython_fails extensions_unfold)
  moreover have "import_cython env = Imported \<longrightarrow>
        probe_cython env = ([Imports ''Cython.Build''], Inr True)"
    by (simp add: probe_cython_succeeds)
  ultimately show ?thesis by blast
qed

theorem probe_cython_never_raises_witness:
  "import_cython example_env = ImportFails
   \<and> probe_cython example_env =
       ([Imports ''Cython.Build'',
         Warn ''Cython not found. Using pre cythonized files.''], Inr False)
   \<and> map sources (projr (snd (extensions example_env))) =
       [[''pyemma/coordinates/clustering/src/clustering_module.cpp''],
        [''pyemma/_ext/variational/estimators/covar_c/covartools.cpp''],
        [''pyemma/_ext/variational/solvers/eig_qr/eig_qr.c''],
        [''pyemma/_ext/orderedset/_orderedset.c'']]
   \<and> import_cython (example_env\<lparr>import_cython := Imported\<rparr>) = Imported
   \<and> probe_cython (example_env\<lparr>import_cython := Imported\<rparr>)
       = ([Imports ''Cython.Build''], Inr True)"
  using probe_cython_never_raises [of example_env]
        probe_cython_never_raises [of "example_env\<lparr>import_cython := Imported\<rparr>"]
  by (simp add: example_env_def extensions_body_def py_import_def py_assert_def
      res_bind_def ret_def emit_def Let_def build_exts_def inject_openmp_def
      assemble_def new_Extension_def)

subsection \<open>The existence check on the bundled headers\<close>

lemma inject_openmp_returns:
  "\<exists>r. snd (inject_openmp oe ng exts) = Inr r \<and> length r = length exts"
proof (cases oe)
  case True
  then show ?thesis by (simp add: inject_openmp_enabled omp_loop_length)
next
  case False
  then show ?thesis by (simp add: inject_openmp_def ret_def)
qed

text \<open>
  C8. \<open>extensions\<close> checks that the directory \<open>pybind11/include\<close> beside the script
  exists. When it does not, \<open>extensions\<close> raises and returns no descriptor list; the
  exception is the AssertionError of the check whenever the two imports before it
  succeed. When it exists and the imports succeed, the check passes and the function goes
  on with the assembly: its outcome is that of the code after the check, which without
  the translator is a list of four descriptors.
\<close>

theorem extensions_checks_pybind_include:
  "(\<not> os_path_exists env (os_path_join env [file_dir env, ''pybind11'', ''include'']) \<longrightarrow>
      (\<exists>e. snd (extensions env) = Inl e)
      \<and> (import_mdtraj env = Imported \<and> import_numpy env = Imported \<longrightarrow>
           snd (extensions env) = Inl AssertionError))
   \<and> (os_path_exists env (os_path_join env [file_dir env, ''pybind11'', ''include''])
       \<and> import_mdtraj env = Imported \<and> import_numpy env = Imported \<longrightarrow>
         snd (extensions env) =
           snd (build_exts env (import_cython env = Imported) (numpy_get_include env)
                  (os_path_join env [file_dir env, ''pybind11'', ''include'']))
         \<and> (import_cython env = ImportFails \<longrightarrow>
              (\<exists>exts. snd (extensions env) = Inr exts \<and> length exts = 4)))"
proof -
  let ?p = "os_path_join env [file_dir env, ''pybind11'', ''include'']"
  have a: "\<exists>e. snd (extensions env) = Inl e" if "\<not> os_path_exists env ?p"
    using extensions_body_unchecked [OF that] by (simp add: extensions_unfold)
  have b: "snd (extensions env) = Inl AssertionError"
    if "\<not> os_path_exists env ?p" "import_mdtraj env = Imported" "import_numpy env = Imported"
    using extensions_body_assertion [OF that(2) that(3) that(1)]
    by (simp add: extensions_unfold)
  have c: "snd (extensions env) =
           snd (build_exts env (import_cython env = Imported) (numpy_get_include env) ?p)"
    if "os_path_exists env ?p" "import_mdtraj env = Imported" "import_numpy env = Imported"
    using extensions_body_checked [OF that(2) that(3) that(1)]
    by (simp add: extensions_unfold)
  have d: "\<exists>exts. snd (extensions env) = Inr exts \<and> length exts = 4"
    if "os_path_exists env ?p" "import_mdtraj env = Imported" "import_numpy env = Imported"
       "import_cython env = ImportFails"
  proof -
    have "snd (extensions env) =
            snd (inject_openmp (fst (detect_openmp env)) (snd (detect_openmp env))
                   (use_pregenerated (assemble env (numpy_get_include env) ?p)))"
      using c [OF that(1) that(2) that(3)] that(4) by (simp add: build_exts_fallback)
    then show ?thesis
      using inject_openmp_returns
              [of "fst (detect_openmp env)" "snd (detect_openmp env)"
                  "use_pregenerated (assemble env (numpy_get_include env) ?p)"]
      by (simp add: use_pregenerated_length assemble_length)
  qed
  from a b c d show ?thesis by blast
qed

theorem extensions_checks_pybind_include_witness:
  "\<not> os_path_exists (example_env\<lparr>os_path_exists := (\<lambda>p. False)\<rparr>)
        (os_path_join (example_env\<lparr>os_path_exists := (\<lambda>p. False)\<rparr>)
           [file_dir (example_env\<lparr>os_path_exists := (\<lambda>p. False)\<rparr>), ''pybind11'', ''include''])
   \<and> snd (extensions (example_env\<lparr>os_path_exists := (\<lambda>p. False)\<rparr>)) = Inl AssertionError
   \<and> os_path_exists example_env
        (os_path_join example_env [file_dir example_env, ''pybind11'', ''include''])
   \<and> import_mdtraj example_env = Imported \<and> import_numpy example_env = Imported
   \<and> import_cython example_env = ImportFails
   \<and> (\<exists>exts. snd (extensions example_env) = Inr exts \<and> length exts = 4)"
proof -
  let ?e = "example_env\<lparr>os_path_exists := (\<lambda>p. False)\<rparr>"
  have n: "\<not> os_path_exists ?e (os_path_join ?e [file_dir ?e, ''pybind11'', ''include''])"
    by simp
  have i: "import_mdtraj ?e = Imported \<and> import_numpy ?e = Imported"
    by (simp add: example_env_def)
  have a: "snd (extensions ?e) = Inl AssertionError"
    using extensions_checks_pybind_include [of ?e] n i by blast
  have y: "os_path_exists example_env
             (os_path_join example_env [file_dir example_env, ''pybind11'', ''include''])"
    by (simp add: example_env_def)
  have j: "import_mdtraj example_env = Imported \<and> import_numpy example_env = Imported
           \<and> import_cython example_env = ImportFails"
    by (simp add: example_env_def)
  have b: "\<exists>exts. snd (extensions example_env) = Inr exts \<and> length exts = 4"
    using extensions_checks_pybind_include [of example_env] y j by blast
  from n a y j b show ?thesis by blast
qed

subsection \<open>The archive-build command outside and inside a checkout\<close>

text \<open>
  C5. Outside a checkout (no \<open>.git\<close>), \<open>sdist.run\<close> prints the informational message and
  returns normally; it neither imports nor calls the translator, does not build the
  descriptors and does not delegate to the base archive command.
\<close>

theorem sdist_run_outside_checkout:
  assumes "\<not> os_path_exists env ''.git''"
  shows "sdist_run env = ([Print ''Not on git, can not create source distribution''], Inr ())
       \<and> Cythonize \<notin> set (fst (sdist_run env))
       \<and> BaseSdistRun \<notin> set (fst (sdist_run env))
       \<and> Imports ''Cython.Build'' \<notin> set (fst (sdist_run env))"
  using assms by (simp add: sdist_run_def res_bind_def emit_def ret_def)

theorem sdist_run_outside_checkout_witness:
  "\<not> os_path_exists example_env ''.git''
   \<and> sdist_run example_env
       = ([Print ''Not on git, can not create source distribution''], Inr ())"
proof -
  have n: "\<not> os_path_exists example_env ''.git''"
    by (simp add: example_env_def)
  from n sdist_run_outside_checkout [OF n] show ?thesis by blast
qed

lemma sdist_run_checkout:
  assumes "os_path_exists env ''.git''"
  shows "sdist_run env =
           res_bind
             (except_ImportError
                (res_bind (py_import ''Cython.Build'' (import_cython env)) (\<lambda>_.
                 res_bind (emit (Print ''cythonizing sources'')) (\<lambda>_.
                 res_bind (extensions env) (\<lambda>exts.
                 res_bind (call_cythonize env exts) (\<lambda>_. ret ())))))
                (emit (Warn ''sdist cythonize failed'')))
             (\<lambda>_. ([BaseSdistRun], base_sdist_run env))"
  using assms by (simp add: sdist_run_def)

text \<open>
  C6. In a checkout, when the import of the translator fails inside \<open>sdist.run\<close>, the
  ImportError is caught, the warning is emitted and the base archive command is run all
  the same; its outcome is the outcome of \<open>sdist.run\<close>. The base command is run as well
  when the import, the assembly of the descriptors and the translation succeed, and when
  the assembly itself ends in an ImportError.
\<close>

theorem sdist_run_delegates_in_checkout:
  assumes "os_path_exists env ''.git''"
  shows "(import_cython env = ImportFails \<longrightarrow>
           sdist_run env =
             ([Imports ''Cython.Build'', Warn ''sdist cythonize failed'', BaseSdistRun],
              base_sdist_run env))
       \<and> (\<forall>exts exts'.
             import_cython env = Imported \<and> snd (extensions env) = Inr exts
             \<and> cythonize env exts = Inr exts' \<longrightarrow>
               sdist_run env =
                 ([Imports ''Cython.Build'', Print ''cythonizing sources'']
                    @ fst (extensions env) @ [Cythonize, BaseSdistRun],
                  base_sdist_run env))
       \<and> (\<forall>m. import_cython env = Imported \<and> snd (extensions env) = Inl (ImportError m) \<longrightarrow>
               sdist_run env =
                 ([Imports ''Cython.Build'', Print ''cythonizing sources'']
                    @ fst (extensions env) @ [Warn ''sdist cythonize failed'', BaseSdistRun],
                  base_sdist_run env))"
proof -
  have a: "sdist_run env =
             ([Imports ''Cython.Build'', Warn ''sdist cythonize failed'', BaseSdistRun],
              base_sdist_run env)"
    if "import_cython env = ImportFails"
    using that
    by (simp add: sdist_run_checkout [OF assms] py_import_def res_bind_def
        except_ImportError_def emit_def)
  have b: "sdist_run env =
             ([Imports ''Cython.Build'', Print ''cythonizing sources'']
                @ fst (extensions env) @ [Cythonize, BaseSdistRun],
              base_sdist_run env)"
    if "import_cython env = Imported" "snd (extensions env) = Inr exts"
       "cythonize env exts = Inr exts'" for exts exts'
    using that
    by (simp add: sdist_run_checkout [OF assms] py_import_def res_bind_def
        except_ImportError_def emit_def ret_def call_cythonize_def)
  have c: "sdist_run env =
             ([Imports ''Cython.Build'', Print ''cythonizing sources'']
                @ fst (extensions env) @ [Warn ''sdist cythonize failed'', BaseSdistRun],
              base_sdist_run env)"
    if "import_cython env = Imported" "snd (extensions env) = Inl (ImportError m)" for m
    using that
    by (simp add: sdist_run_checkout [OF assms] py_import_def res_bind_def
        except_ImportError_def emit_def)
  from a b c show ?thesis by blast
qed

theorem sdist_run_delegates_in_checkout_witness:
  "os_path_exists (example_env\<lparr>os_path_exists := (\<lambda>p. True)\<rparr>) ''.git''
   \<and> import_cython (example_env\<lparr>os_path_exists := (\<lambda>p. True)\<rparr>) = ImportFails
   \<and> sdist_run (example_env\<lparr>os_path_exists := (\<lambda>p. True)\<rparr>)
       = ([Imports ''Cython.Build'', Warn ''sdist cythonize failed'', BaseSdistRun], Inr ())
   \<and> import_cython (example_env\<lparr>os_path_exists := (\<lambda>p. True), import_cython := Imported\<rparr>)
       = Imported
   \<and> (\<exists>exts. snd (extensions
                    (example_env\<lparr>os_path_exists := (\<lambda>p. True), import_cython := Imported\<rparr>))
              = Inr exts)
   \<and> BaseSdistRun \<in> set (fst (sdist_run
        (example_env\<lparr>os_path_exists := (\<lambda>p. True), import_cython := Imported\<rparr>)))
   \<and> snd (sdist_run (example_env\<lparr>os_path_exists := (\<lambda>p. True), import_cython := Imported\<rparr>))
       = Inr ()"
proof -
  let ?f = "example_env\<lparr>os_path_exists := (\<lambda>p. True)\<rparr>"
  let ?s = "example_env\<lparr>os_path_exists := (\<lambda>p. True), import_cython := Imported\<rparr>"
  have gf: "os_path_exists ?f ''.git''" and gs: "os_path_exists ?s ''.git''"
    by simp_all
  have f: "import_cython ?f = ImportFails" and bf: "base_sdist_run ?f = Inr ()"
    by (simp_all add: example_env_def)
  have s: "import_cython ?s = Imported" and bs: "base_sdist_run ?s = Inr ()"
    by (simp_all add: example_env_def)
  have c: "cythonize ?s exts = Inr exts" for exts
    by (simp add: example_env_def)
  have x: "\<exists>exts. snd (extensions ?s) = Inr exts"
    by (simp add: example_env_def extensions_unfold extensions_body_def py_import_def
        py_assert_def res_bind_def ret_def emit_def Let_def build_exts_def
        call_cythonize_def inject_openmp_def)
  then obtain exts where e: "snd (extensions ?s) = Inr exts" ..
  have r1: "sdist_run ?f =
              ([Imports ''Cython.Build'', Warn ''sdist cythonize failed'', BaseSdistRun], Inr ())"
    using sdist_run_delegates_in_checkout [OF gf] f bf by simp
  have r2: "sdist_run ?s =
              ([Imports ''Cython.Build'', Print ''cythonizing sources'']
                 @ fst (extensions ?s) @ [Cythonize, BaseSdistRun], Inr ())"
    using sdist_run_delegates_in_checkout [OF gs] s e c [of exts] bs by metis
  have r3: "BaseSdistRun \<in> set (fst (sdist_run ?s))" and r4: "snd (sdist_run ?s) = Inr ()"
    by (simp_all add: r2)
  from gf f r1 s x r3 r4 show ?thesis by blast
qed

subsection \<open>The top level: invocations that install nothing\<close>



lemma help_after_program_name:
  assumes "''--help'' \<in> set (tl sys_argv)"
  shows "not_installing sys_argv"
proof -
  from assms obtain p a rest where "sys_argv = p # a # rest"
    by (cases sys_argv; cases "tl sys_argv") auto
  with assms show ?thesis by (simp add: not_installing_def)
qed




lemma git_submodule_command:
  "str_split (str_replace ''{mod}'' ''pybind11'' cmd) CHR '' ''
     = [''git'', ''submodule'', ''update'', ''--init'', ''pybind11'']"
  by (simp add: cmd_def str_split_def)

lemma init_submodules_pybind11:
  "init_submodules env [''pybind11'']
     = check_call env [''git'', ''submodule'', ''update'', ''--init'', ''pybind11'']"
  by (cases "run_process env [''git'', ''submodule'', ''update'', ''--init'', ''pybind11'']")
     (simp_all add: git_submodule_command check_call_def res_bind_def ret_def
        del: str_replace.simps)

lemma script_installing_checkout:
  assumes "\<not> not_installing (argv env)" and "os_path_exists env ''.git''"
  shows "script env =
     (case run_process env [''git'', ''submodule'', ''update'', ''--init'', ''pybind11''] of
        Exited rc \<Rightarrow>
          if rc = 0 then
            ([Warn ''using git, require cython'',
              Subprocess [''git'', ''submodule'', ''update'', ''--init'', ''pybind11''], Setup],
             Inr ((metadata_dict env)
                    (''requires'' \<mapsto> Strs [''numpy'', ''scipy''],
                     ''setup_requires'' \<mapsto>
                        Strs [''numpy>=1.7.0'', ''scipy'', ''mdtraj>=1.7.0'', ''cython>=0.22''],
                     ''package_data'' \<mapsto>
                        PackageData
                          [(''pyemma'', [''pyemma.cfg'', ''logging.yml'']),
                           (''pyemma.coordinates.tests'', [''data/*'']),
                           (''pyemma.msm.tests'', [''data/*'']),
                           (''pyemma.datasets'', [''*.npz'']),
                           (''pyemma.util.tests'', [''data/*''])],
                     ''ext_modules'' \<mapsto> Lazy (Lazy_cythonize extensions))))
          else
            ([Warn ''using git, require cython'',
              Subprocess [''git'', ''submodule'', ''update'', ''--init'', ''pybind11'']],
             Inl (CalledProcessError rc
                    [''git'', ''submodule'', ''update'', ''--init'', ''pybind11'']))
      | SpawnFailed \<Rightarrow>
          ([Warn ''using git, require cython'',
            Subprocess [''git'', ''submodule'', ''update'', ''--init'', ''pybind11'']],
           Inl OSError))"
  using assms
  by (cases "run_process env [''git'', ''submodule'', ''update'', ''--init'', ''pybind11'']")
     (auto simp: script_def init_submodules_pybind11 check_call_def extend_entry_def
        res_bind_def ret_def emit_def Let_def fun_upd_twist
        simp del: init_submodules.simps)

lemma script_installing_no_checkout:
  assumes "\<not> not_installing (argv env)" and "\<not> os_path_exists env ''.git''"
  shows "script env =
     ([Setup],
      Inr ((metadata_dict env)
             (''requires'' \<mapsto> Strs [''numpy'', ''scipy''],
              ''setup_requires'' \<mapsto> Strs [''numpy>=1.7.0'', ''scipy'', ''mdtraj>=1.7.0''],
              ''package_data'' \<mapsto>
                 PackageData
                   [(''pyemma'', [''pyemma.cfg'', ''logging.yml'']),
                    (''pyemma.coordinates.tests'', [''data/*'']),
                    (''pyemma.msm.tests'', [''data/*'']),
                    (''pyemma.datasets'', [''*.npz'']),
                    (''pyemma.util.tests'', [''data/*''])],
              ''ext_modules'' \<mapsto> Lazy (Lazy_cythonize extensions))))"
  using assms
  by (simp add: script_def res_bind_def ret_def emit_def Let_def)

subsection \<open>The top level: full builds\<close>

text \<open>
  C9. For an invocation that is not metadata-only, in a checkout, the script runs
  \<open>git submodule update --init pybind11\<close> through \<open>check_call\<close> before it calls
  \<open>setup\<close>. When the subprocess exits with status zero the call of \<open>setup\<close> follows;
  when it exits with another status the script ends with CalledProcessError, which
  nothing catches, and \<open>setup\<close> is not called.
\<close>

theorem installing_in_checkout_inits_submodule:
  assumes "\<not> not_installing (argv env)" and "os_path_exists env ''.git''"
  shows "Subprocess [''git'', ''submodule'', ''update'', ''--init'', ''pybind11'']
           \<in> set (fst (script env))
       \<and> (run_process env [''git'', ''submodule'', ''update'', ''--init'', ''pybind11'']
            = Exited 0 \<longrightarrow>
           (\<exists>md. script env =
              ([Warn ''using git, require cython'',
                Subprocess [''git'', ''submodule'', ''update'', ''--init'', ''pybind11''],
                Setup], Inr md)))
       \<and> (\<forall>rc. rc \<noteq> 0
             \<and> run_process env [''git'', ''submodule'', ''update'', ''--init'', ''pybind11'']
                 = Exited rc \<longrightarrow>
               script env =
                 ([Warn ''using git, require cython'',
                   Subprocess [''git'', ''submodule'', ''update'', ''--init'', ''pybind11'']],
                  Inl (CalledProcessError rc
                         [''git'', ''submodule'', ''update'', ''--init'', ''pybind11'']))
               \<and> Setup \<notin> set (fst (script env)))"
  by (cases "run_process env [''git'', ''submodule'', ''update'', ''--init'', ''pybind11'']")
     (simp_all add: script_installing_checkout [OF assms])

theorem installing_in_checkout_inits_submodule_witness:
  "\<not> not_installing (argv (example_env\<lparr>os_path_exists := (\<lambda>p. True),
                                        run_process := (\<lambda>args. Exited 1)\<rparr>))
   \<and> os_path_exists (example_env\<lparr>os_path_exists := (\<lambda>p. True),
                                   run_process := (\<lambda>args. Exited 1)\<rparr>) ''.git''
   \<and> script (example_env\<lparr>os_path_exists := (\<lambda>p. True), run_process := (\<lambda>args. Exited 1)\<rparr>)
       = ([Warn ''using git, require cython'',
           Subprocess [''git'', ''submodule'', ''update'', ''--init'', ''pybind11'']],
          Inl (CalledProcessError 1
                 [''git'', ''submodule'', ''update'', ''--init'', ''pybind11'']))
   \<and> (\<exists>md. script (example_env\<lparr>os_path_exists := (\<lambda>p. True)\<rparr>)
             = ([Warn ''using git, require cython'',
                 Subprocess [''git'', ''submodule'', ''update'', ''--init'', ''pybind11''],
                 Setup], Inr md))"
proof -
  let ?b = "example_env\<lparr>os_path_exists := (\<lambda>p. True), run_process := (\<lambda>args. Exited 1)\<rparr>"
  let ?g = "example_env\<lparr>os_path_exists := (\<lambda>p. True)\<rparr>"
  have nb: "\<not> not_installing (argv ?b)" and ng: "\<not> not_installing (argv ?g)"
    by (simp_all add: example_env_def not_installing_def)
  have gb: "os_path_exists ?b ''.git''" and gg: "os_path_exists ?g ''.git''"
    by simp_all
  have rb: "run_process ?b [''git'', ''submodule'', ''update'', ''--init'', ''pybind11'']
              = Exited 1"
    by simp
  have rg: "run_process ?g [''git'', ''submodule'', ''update'', ''--init'', ''pybind11'']
              = Exited 0"
    by (simp add: example_env_def)
  have b: "script ?b =
             ([Warn ''using git, require cython'',
               Subprocess [''git'', ''submodule'', ''update'', ''--init'', ''pybind11'']],
              Inl (CalledProcessError 1
                     [''git'', ''submodule'', ''update'', ''--init'', ''pybind11'']))"
    using installing_in_checkout_inits_submodule [OF nb gb] rb by simp
  have g: "\<exists>md. script ?g =
             ([Warn ''using git, require cython'',
               Subprocess [''git'', ''submodule'', ''update'', ''--init'', ''pybind11''],
               Setup], Inr md)"
    using installing_in_checkout_inits_submodule [OF ng gg] rg by blast
  from nb gb b g show ?thesis by blast
qed

lemma script_installing_sets_build_keys:
  assumes "\<not> not_installing (argv env)" and "snd (script env) = Inr md"
  shows "md ''ext_modules'' = Some (Lazy (Lazy_cythonize extensions))
       \<and> (\<exists>more. md ''setup_requires''
              = Some (Strs ([''numpy>=1.7.0'', ''scipy'', ''mdtraj>=1.7.0''] @ more)))"
proof (cases "os_path_exists env ''.git''")
  case True
  show ?thesis
    using assms(2)
    by (cases "run_process env [''git'', ''submodule'', ''update'', ''--init'', ''pybind11'']")
       (auto simp: script_installing_checkout [OF assms(1) True] split: if_splits)
next
  case False
  show ?thesis
    using assms(2) by (auto simp: script_installing_no_checkout [OF assms(1) False])
qed

text \<open>
  C10. The test for a metadata-only invocation depends on the position: \<open>--help\<close>
  counts anywhere after the program name, while \<open>--help-commands\<close>, \<open>--version\<close> and
  \<open>clean\<close> count only as the first argument. With two or more words, no \<open>--help\<close> and
  another first argument, the invocation is a full build whatever follows; so
  \<open>setup.py build --version\<close> is a full build, and the dictionary passed to \<open>setup\<close>
  has \<open>setup_requires\<close> and \<open>ext_modules\<close>.
\<close>

theorem not_installing_position_sensitive:
  "(''--help'' \<in> set (tl sys_argv) \<longrightarrow> not_installing sys_argv)
   \<and> (2 \<le> length sys_argv
       \<and> sys_argv ! 1 \<in> {''--help-commands'', ''--version'', ''clean''} \<longrightarrow>
         not_installing sys_argv)
   \<and> (2 \<le> length sys_argv \<and> ''--help'' \<notin> set (tl sys_argv)
       \<and> sys_argv ! 1 \<notin> {''--help-commands'', ''--version'', ''clean''} \<longrightarrow>
         \<not> not_installing sys_argv)
   \<and> \<not> not_installing [''setup.py'', ''build'', ''--version'']
   \<and> (argv env = [''setup.py'', ''build'', ''--version''] \<and> snd (script env) = Inr md \<longrightarrow>
         md ''ext_modules'' = Some (Lazy (Lazy_cythonize extensions))
         \<and> (\<exists>more. md ''setup_requires''
                = Some (Strs ([''numpy>=1.7.0'', ''scipy'', ''mdtraj>=1.7.0''] @ more))))"
proof -
  have a: "''--help'' \<in> set (tl sys_argv) \<longrightarrow> not_installing sys_argv"
    using help_after_program_name by blast
  have b: "2 \<le> length sys_argv
       \<and> sys_argv ! 1 \<in> {''--help-commands'', ''--version'', ''clean''} \<longrightarrow>
         not_installing sys_argv"
    by (auto simp: not_installing_def)
  have c: "2 \<le> length sys_argv \<and> ''--help'' \<notin> set (tl sys_argv)
       \<and> sys_argv ! 1 \<notin> {''--help-commands'', ''--version'', ''clean''} \<longrightarrow>
         \<not> not_installing sys_argv"
    by (auto simp: not_installing_def drop_Suc)
  have d: "\<not> not_installing [''setup.py'', ''build'', ''--version'']"
    by (simp add: not_installing_def)
  have e: "argv env = [''setup.py'', ''build'', ''--version''] \<and> snd (script env) = Inr md \<longrightarrow>
         md ''ext_modules'' = Some (Lazy (Lazy_cythonize extensions))
         \<and> (\<exists>more. md ''setup_requires''
                = Some (Strs ([''numpy>=1.7.0'', ''scipy'', ''mdtraj>=1.7.0''] @ more)))"
    using d script_installing_sets_build_keys [of env md] by auto
  from a b c d e show ?thesis by blast
qed

theorem not_installing_position_sensitive_witness:
  "argv example_env = [''setup.py'', ''build'', ''--version'']
   \<and> 2 \<le> length (argv example_env)
   \<and> ''--help'' \<notin> set (tl (argv example_env))
   \<and> argv example_env ! 1 \<notin> {''--help-commands'', ''--version'', ''clean''}
   \<and> \<not> not_installing (argv example_env)
   \<and> (\<exists>md. snd (script example_env) = Inr md
          \<and> md ''ext_modules'' = Some (Lazy (Lazy_cythonize extensions))
          \<and> (\<exists>more. md ''setup_requires''
                 = Some (Strs ([''numpy>=1.7.0'', ''scipy'', ''mdtraj>=1.7.0''] @ more))))
   \<and> not_installing [''setup.py'', ''--version'']
   \<and> not_installing [''setup.py'', ''build'', ''--help'']"
proof -
  have a: "argv example_env = [''setup.py'', ''build'', ''--version'']"
    by (simp add: example_env_def)
  have h: "2 \<le> length (argv example_env) \<and> ''--help'' \<notin> set (tl (argv example_env))
           \<and> argv example_env ! 1 \<notin> {''--help-commands'', ''--version'', ''clean''}"
    by (simp add: a)
  have n: "\<not> not_installing (argv example_env)"
    using not_installing_position_sensitive [of "argv example_env"] h by blast
  have g: "\<not> os_path_exists example_env ''.git''"
    by (simp add: example_env_def)
  obtain md where m: "snd (script example_env) = Inr md"
    by (simp add: script_installing_no_checkout [OF n g])
  have k: "md ''ext_modules'' = Some (Lazy (Lazy_cythonize extensions))
          \<and> (\<exists>more. md ''setup_requires''
                 = Some (Strs ([''numpy>=1.7.0'', ''scipy'', ''mdtraj>=1.7.0''] @ more)))"
    using not_installing_position_sensitive [of "argv example_env" example_env md] a m
    by blast
  have v: "not_installing [''setup.py'', ''--version'']"
    using not_installing_position_sensitive [of "[''setup.py'', ''--version'']"] by simp
  have p: "not_installing [''setup.py'', ''build'', ''--help'']"
    using not_installing_position_sensitive [of "[''setup.py'', ''build'', ''--help'']"]
    by simp
  from a h n m k v p show ?thesis by blast
qed

end
